theory Spec2Isabelle
  imports Main "HOL-Library.Sublist"
begin

section \<open>Port synchronisation between Gluetun and qBittorrent\<close>

text \<open>
  A shallow embedding of \<^verbatim>\<open>src/health.py\<close> (class \<^verbatim>\<open>HealthState\<close>) and of
  \<^verbatim>\<open>src/sync.py\<close> (class \<^verbatim>\<open>PortSync\<close>: \<^verbatim>\<open>wait_for_services\<close> and \<^verbatim>\<open>sync_port\<close>),
  together with the result records of \<^verbatim>\<open>src/gluetun.py\<close> and \<^verbatim>\<open>src/qbittorrent.py\<close>.

  Python integers are \<open>int\<close>, \<^verbatim>\<open>str\<close> is \<open>string\<close>, \<^verbatim>\<open>X | None\<close> is \<open>X option\<close>.
  Mutation of the health state is explicit state passing. The two REST clients are
  external: each of their methods is a function of the history of collaborator calls
  made so far, so that every behaviour of the two services is covered. Calls to the
  logger only write to the logging sink and are left out, except for the one place
  where building the log message can raise.
\<close>

subsection \<open>Strings\<close>

text \<open>\<^verbatim>\<open>sep.join(xs)\<close> of Python.\<close>

fun join :: "string \<Rightarrow> string list \<Rightarrow> string" where
  "join sep [] = []"
| "join sep [x] = x"
| "join sep (x # y # ys) = x @ sep @ join sep (y # ys)"

text \<open>\<^verbatim>\<open>sub in s\<close> of Python: \<open>sub\<close> occurs in \<open>s\<close> as a contiguous run.\<close>

fun str_contains :: "string \<Rightarrow> string \<Rightarrow> bool" where
  "str_contains sub [] = (sub = [])"
| "str_contains sub (c # cs) = (prefix sub (c # cs) \<or> str_contains sub cs)"

text \<open>An f-string field \<^verbatim>\<open>{x}\<close> for \<^verbatim>\<open>x: str | None\<close>: \<^verbatim>\<open>None\<close> prints as \<^verbatim>\<open>None\<close>.\<close>

definition fmt_str_opt :: "string option \<Rightarrow> string" where
  "fmt_str_opt x = (case x of None \<Rightarrow> ''None'' | Some s \<Rightarrow> s)"

subsection \<open>\<^verbatim>\<open>health.py\<close>: the health state\<close>

record HealthState =
  healthy :: bool
  reason :: string
  gluetun_ok :: bool
  qbittorrent_ok :: bool

text \<open>\<^verbatim>\<open>HealthState.__init__\<close>. The lock only makes each method atomic.\<close>

definition HealthState_init :: HealthState where
  "HealthState_init =
     \<lparr>healthy = False, reason = ''Starting up'', gluetun_ok = False, qbittorrent_ok = False\<rparr>"

definition set_healthy :: "bool \<Rightarrow> string \<Rightarrow> HealthState \<Rightarrow> HealthState" where
  "set_healthy h r st = st\<lparr>healthy := h, reason := r\<rparr>"

definition set_service_status :: "bool \<Rightarrow> bool \<Rightarrow> HealthState \<Rightarrow> HealthState" where
  "set_service_status g q st =
     (let st1 = st\<lparr>gluetun_ok := g, qbittorrent_ok := q\<rparr> in
      if g \<and> q then st1\<lparr>healthy := True, reason := ''''\<rparr>
      else
        (let reasons0 = [];
             reasons1 = (if \<not> g then reasons0 @ [''Gluetun unreachable''] else reasons0);
             reasons2 = (if \<not> q then reasons1 @ [''qBittorrent unreachable''] else reasons1)
         in st1\<lparr>healthy := False, reason := join '', '' reasons2\<rparr>))"

definition get_status :: "HealthState \<Rightarrow> bool \<times> string" where
  "get_status st = (healthy st, reason st)"

text \<open>A call of one of the two writing methods, and a sequence of such calls.\<close>

datatype health_call = SetHealthy bool string | SetServiceStatus bool bool

fun health_apply :: "HealthState \<Rightarrow> health_call \<Rightarrow> HealthState" where
  "health_apply st (SetHealthy h r) = set_healthy h r st"
| "health_apply st (SetServiceStatus g q) = set_service_status g q st"

definition health_run :: "health_call list \<Rightarrow> HealthState" where
  "health_run cs = foldl health_apply HealthState_init cs"

text \<open>A \<^verbatim>\<open>set_healthy\<close> call that reports healthy passes the empty reason.\<close>

fun healthy_without_reason :: "health_call \<Rightarrow> bool" where
  "healthy_without_reason (SetHealthy h r) = (h \<longrightarrow> r = '''')"
| "healthy_without_reason (SetServiceStatus g q) = True"

subsection \<open>\<^verbatim>\<open>gluetun.py\<close> and \<^verbatim>\<open>qbittorrent.py\<close>: the result records\<close>

record GluetunResult =
  success :: bool
  port :: "int option"
  error :: "string option"
  is_auth_error :: bool

record QBittorrentResult =
  success :: bool
  port :: "int option"
  error :: "string option"
  is_auth_error :: bool

subsection \<open>The collaborators and the state of a run\<close>

text \<open>
  One entry per call that leaves the orchestrator, in the order made, with the result
  that came back: \<^verbatim>\<open>GluetunClient.get_forwarded_port\<close>,
  \<^verbatim>\<open>QBittorrentClient.get_listen_port\<close>, \<^verbatim>\<open>QBittorrentClient.set_listen_port\<close> with
  its argument, and \<^verbatim>\<open>time.sleep\<close> with its argument.
\<close>

datatype call =
  GetForwardedPort GluetunResult
| GetListenPort QBittorrentResult
| SetListenPort int QBittorrentResult
| Sleep int

text \<open>
  The two services. Each method answers from the history of calls made so far, so a
  service may answer differently every time and may react to a write.
\<close>

record Services =
  gluetun_get_forwarded_port :: "call list \<Rightarrow> GluetunResult"
  qbittorrent_get_listen_port :: "call list \<Rightarrow> QBittorrentResult"
  qbittorrent_set_listen_port :: "call list \<Rightarrow> int \<Rightarrow> QBittorrentResult"

text \<open>The fields of \<^verbatim>\<open>Config\<close> that \<^verbatim>\<open>PortSync\<close> reads in the two methods modelled.\<close>

record Config =
  startup_check_interval :: int
  startup_max_attempts :: int
  verify_delay :: int
  verify_max_attempts :: int

text \<open>What a run changes: the shared health state, and the calls made so far.\<close>

record SyncState =
  health_state :: HealthState
  calls :: "call list"

datatype exn = UnboundLocalError | ValueError | OverflowError

datatype 'a outcome = Returns 'a | Raises exn

text \<open>
  \<^verbatim>\<open>time.sleep(secs)\<close> for an integer argument, as CPython has it. The argument is
  first converted to a count of nanoseconds in a signed 64-bit integer, which raises
  \<^verbatim>\<open>OverflowError\<close> when \<open>secs * 10^9\<close> does not fit, that is outside
  \<open>-9223372036 .. 9223372036\<close>; then a negative argument raises \<^verbatim>\<open>ValueError\<close>.
\<close>

definition time_sleep :: "int \<Rightarrow> SyncState \<Rightarrow> unit outcome \<times> SyncState" where
  "time_sleep secs s =
     (if secs < - 9223372036 \<or> 9223372036 < secs then (Raises OverflowError, s)
      else if secs < 0 then (Raises ValueError, s)
      else (Returns (), s\<lparr>calls := calls s @ [Sleep secs]\<rparr>))"

definition get_forwarded_port :: "Services \<Rightarrow> SyncState \<Rightarrow> GluetunResult \<times> SyncState" where
  "get_forwarded_port env s =
     (let r = gluetun_get_forwarded_port env (calls s)
      in (r, s\<lparr>calls := calls s @ [GetForwardedPort r]\<rparr>))"

definition get_listen_port :: "Services \<Rightarrow> SyncState \<Rightarrow> QBittorrentResult \<times> SyncState" where
  "get_listen_port env s =
     (let r = qbittorrent_get_listen_port env (calls s)
      in (r, s\<lparr>calls := calls s @ [GetListenPort r]\<rparr>))"

definition set_listen_port ::
  "Services \<Rightarrow> int \<Rightarrow> SyncState \<Rightarrow> QBittorrentResult \<times> SyncState" where
  "set_listen_port env p s =
     (let r = qbittorrent_set_listen_port env (calls s) p
      in (r, s\<lparr>calls := calls s @ [SetListenPort p r]\<rparr>))"

text \<open>\<^verbatim>\<open>check_ready\<close> of either client is its read operation.\<close>

definition gluetun_check_ready :: "Services \<Rightarrow> SyncState \<Rightarrow> GluetunResult \<times> SyncState" where
  "gluetun_check_ready env s = get_forwarded_port env s"

definition qbittorrent_check_ready ::
  "Services \<Rightarrow> SyncState \<Rightarrow> QBittorrentResult \<times> SyncState" where
  "qbittorrent_check_ready env s = get_listen_port env s"

text \<open>How a \<^verbatim>\<open>for\<close> loop ends: by a \<^verbatim>\<open>return\<close>, by an exception, or by running out.\<close>

datatype 'v loop_exit = LReturn bool | LRaise exn | LDone 'v

subsection \<open>\<^verbatim>\<open>PortSync.wait_for_services\<close>\<close>

text \<open>
  The block under \<^verbatim>\<open># Check Gluetun\<close>: the value returned from the method, if the block
  returns, and \<^verbatim>\<open>gluetun_ready\<close> afterwards.
\<close>

definition check_gluetun ::
  "Services \<Rightarrow> bool \<Rightarrow> SyncState \<Rightarrow> bool option \<times> bool \<times> SyncState" where
  "check_gluetun env gluetun_ready s =
     (if \<not> gluetun_ready then
        (case gluetun_check_ready env s of (result, s1) \<Rightarrow>
           if GluetunResult.is_auth_error result then (Some False, gluetun_ready, s1)
           else if GluetunResult.success result then (None, True, s1)
           else (None, gluetun_ready, s1))
      else (None, gluetun_ready, s))"

text \<open>The block under \<^verbatim>\<open># Check qBittorrent\<close>.\<close>

definition check_qbittorrent ::
  "Services \<Rightarrow> bool \<Rightarrow> SyncState \<Rightarrow> bool option \<times> bool \<times> SyncState" where
  "check_qbittorrent env qbittorrent_ready s =
     (if \<not> qbittorrent_ready then
        (case qbittorrent_check_ready env s of (result, s1) \<Rightarrow>
           if QBittorrentResult.is_auth_error result then (Some False, qbittorrent_ready, s1)
           else if QBittorrentResult.success result then (None, True, s1)
           else (None, qbittorrent_ready, s1))
      else (None, qbittorrent_ready, s))"

text \<open>The loop \<^verbatim>\<open>for attempt in range(1, startup_max_attempts + 1)\<close>, over its attempts.\<close>

fun wait_loop ::
  "Config \<Rightarrow> Services \<Rightarrow> int list \<Rightarrow> bool \<Rightarrow> bool \<Rightarrow> SyncState \<Rightarrow> unit loop_exit \<times> SyncState"
where
  "wait_loop cfg env [] gluetun_ready qbittorrent_ready s = (LDone (), s)"
| "wait_loop cfg env (attempt # rest) gluetun_ready qbittorrent_ready s =
     (case check_gluetun env gluetun_ready s of
        (Some b, _, s1) \<Rightarrow> (LReturn b, s1)
      | (None, gluetun_ready1, s1) \<Rightarrow>
          (case check_qbittorrent env qbittorrent_ready s1 of
             (Some b, _, s2) \<Rightarrow> (LReturn b, s2)
           | (None, qbittorrent_ready1, s2) \<Rightarrow>
               if gluetun_ready1 \<and> qbittorrent_ready1 then
                 (LReturn True,
                  s2\<lparr>health_state := set_service_status True True (health_state s2)\<rparr>)
               else if attempt < startup_max_attempts cfg then
                 (case time_sleep (startup_check_interval cfg) s2 of
                    (Raises e, s3) \<Rightarrow> (LRaise e, s3)
                  | (Returns _, s3) \<Rightarrow>
                      wait_loop cfg env rest gluetun_ready1 qbittorrent_ready1 s3)
               else wait_loop cfg env rest gluetun_ready1 qbittorrent_ready1 s2))"

definition wait_for_services :: "Config \<Rightarrow> Services \<Rightarrow> SyncState \<Rightarrow> bool outcome \<times> SyncState" where
  "wait_for_services cfg env s =
     (case wait_loop cfg env [1..startup_max_attempts cfg] False False s of
        (LReturn b, s1) \<Rightarrow> (Returns b, s1)
      | (LRaise e, s1) \<Rightarrow> (Raises e, s1)
      | (LDone _, s1) \<Rightarrow> (Returns False, s1))"

subsection \<open>\<^verbatim>\<open>PortSync.sync_port\<close>\<close>

text \<open>
  The loop \<^verbatim>\<open>for attempt in range(1, verify_max_attempts + 1)\<close>. The variable
  \<^verbatim>\<open>verify_result\<close> is bound by the loop body only: it is \<open>None\<close> until the first pass.
\<close>

fun verify_loop ::
  "Config \<Rightarrow> Services \<Rightarrow> int \<Rightarrow> int list \<Rightarrow> QBittorrentResult option \<Rightarrow> SyncState
     \<Rightarrow> QBittorrentResult option loop_exit \<times> SyncState"
where
  "verify_loop cfg env gluetun_port [] verify_result s = (LDone verify_result, s)"
| "verify_loop cfg env gluetun_port (attempt # rest) verify_result s =
     (case time_sleep (verify_delay cfg) s of
        (Raises e, s1) \<Rightarrow> (LRaise e, s1)
      | (Returns _, s1) \<Rightarrow>
          (case get_listen_port env s1 of (vr, s2) \<Rightarrow>
             if \<not> QBittorrentResult.success vr then
               verify_loop cfg env gluetun_port rest (Some vr) s2
             else if QBittorrentResult.port vr = Some gluetun_port then (LReturn True, s2)
             else verify_loop cfg env gluetun_port rest (Some vr) s2))"

text \<open>
  After the loop the warning's message reads \<^verbatim>\<open>verify_result.port\<close>; with
  \<^verbatim>\<open>verify_result\<close> unbound that raises \<^verbatim>\<open>UnboundLocalError\<close>.
\<close>

definition sync_port :: "Config \<Rightarrow> Services \<Rightarrow> SyncState \<Rightarrow> bool outcome \<times> SyncState" where
  "sync_port cfg env s =
     (case get_forwarded_port env s of (gluetun_result, s1) \<Rightarrow>
        if GluetunResult.is_auth_error gluetun_result then
          (Returns False,
           s1\<lparr>health_state :=
                 set_healthy False
                   (''Gluetun auth error: '' @ fmt_str_opt (GluetunResult.error gluetun_result))
                   (health_state s1)\<rparr>)
        else if \<not> GluetunResult.success gluetun_result then
          (Returns False,
           s1\<lparr>health_state := set_service_status False True (health_state s1)\<rparr>)
        else
          (case GluetunResult.port gluetun_result of
             None \<Rightarrow>
               (Returns True,
                s1\<lparr>health_state := set_service_status True True (health_state s1)\<rparr>)
           | Some gluetun_port \<Rightarrow>
               (case get_listen_port env s1 of (qbt_result, s2) \<Rightarrow>
                  if QBittorrentResult.is_auth_error qbt_result then
                    (Returns False,
                     s2\<lparr>health_state :=
                           set_healthy False
                             (''qBittorrent auth error: ''
                                @ fmt_str_opt (QBittorrentResult.error qbt_result))
                             (health_state s2)\<rparr>)
                  else if \<not> QBittorrentResult.success qbt_result then
                    (Returns False,
                     s2\<lparr>health_state := set_service_status True False (health_state s2)\<rparr>)
                  else
                    (let current_port = QBittorrentResult.port qbt_result;
                         s3 = s2\<lparr>health_state :=
                                    set_service_status True True (health_state s2)\<rparr>
                     in if current_port = Some gluetun_port then (Returns True, s3)
                        else
                          (case set_listen_port env gluetun_port s3 of (update_result, s4) \<Rightarrow>
                             (case verify_loop cfg env gluetun_port
                                     [1..verify_max_attempts cfg] None s4 of
                                (LReturn b, s5) \<Rightarrow> (Returns b, s5)
                              | (LRaise e, s5) \<Rightarrow> (Raises e, s5)
                              | (LDone verify_result, s5) \<Rightarrow>
                                  (case verify_result of
                                     None \<Rightarrow> (Raises UnboundLocalError, s5)
                                   | Some v \<Rightarrow> (Returns False, s5))))))))"

subsection \<open>Reading the calls of a run\<close>

text \<open>The calls made between the state \<open>s\<close> before a run and the state \<open>s'\<close> after it.\<close>

definition new_calls :: "SyncState \<Rightarrow> SyncState \<Rightarrow> call list" where
  "new_calls s s' = drop (length (calls s)) (calls s')"

text \<open>The ports written, the results of the client's reads, the results of the gateway's.\<close>

fun write_calls :: "call list \<Rightarrow> int list" where
  "write_calls [] = []"
| "write_calls (SetListenPort p r # cs) = p # write_calls cs"
| "write_calls (c # cs) = write_calls cs"

fun client_reads :: "call list \<Rightarrow> QBittorrentResult list" where
  "client_reads [] = []"
| "client_reads (GetListenPort r # cs) = r # client_reads cs"
| "client_reads (c # cs) = client_reads cs"

fun gateway_reads :: "call list \<Rightarrow> GluetunResult list" where
  "gateway_reads [] = []"
| "gateway_reads (GetForwardedPort r # cs) = r # gateway_reads cs"
| "gateway_reads (c # cs) = gateway_reads cs"

fun is_write :: "call \<Rightarrow> bool" where
  "is_write (SetListenPort p r) = True"
| "is_write c = False"

text \<open>The client's reads that come after the first write: the verification reads.\<close>

definition verification_reads :: "call list \<Rightarrow> QBittorrentResult list" where
  "verification_reads cs = client_reads (drop 1 (dropWhile (\<lambda>c. \<not> is_write c) cs))"

text \<open>A read of the client that answers with the port \<open>target\<close>.\<close>

definition reads_port :: "int \<Rightarrow> QBittorrentResult \<Rightarrow> bool" where
  "reads_port target r =
     (QBittorrentResult.success r \<and> QBittorrentResult.port r = Some target)"

text \<open>A query whose result is an authentication failure.\<close>

fun is_auth_failure :: "call \<Rightarrow> bool" where
  "is_auth_failure (GetForwardedPort r) = GluetunResult.is_auth_error r"
| "is_auth_failure (GetListenPort r) = QBittorrentResult.is_auth_error r"
| "is_auth_failure (SetListenPort p r) = QBittorrentResult.is_auth_error r"
| "is_auth_failure (Sleep d) = False"

subsection \<open>Results the two clients build, and example runs\<close>

text \<open>From \<^verbatim>\<open>GluetunClient.get_forwarded_port\<close>: HTTP 200 with a port, HTTP 404, a timeout, HTTP 401.\<close>

definition Gluetun_port :: "int \<Rightarrow> GluetunResult" where
  "Gluetun_port p =
     \<lparr>GluetunResult.success = True, port = Some p, error = None, is_auth_error = False\<rparr>"

definition Gluetun_no_port :: GluetunResult where
  "Gluetun_no_port =
     \<lparr>GluetunResult.success = True, port = None,
      error = Some ''No port forwarded (VPN may be disconnected)'', is_auth_error = False\<rparr>"

definition Gluetun_timed_out :: GluetunResult where
  "Gluetun_timed_out =
     \<lparr>GluetunResult.success = False, port = None, error = Some ''Request timed out'',
      is_auth_error = False\<rparr>"

definition Gluetun_auth_failed :: GluetunResult where
  "Gluetun_auth_failed =
     \<lparr>GluetunResult.success = False, port = None, error = Some ''Authentication failed'',
      is_auth_error = True\<rparr>"

text \<open>From \<^verbatim>\<open>QBittorrentClient\<close>: a port read or written, a timeout, a rejected login.\<close>

definition QBittorrent_port :: "int \<Rightarrow> QBittorrentResult" where
  "QBittorrent_port p =
     \<lparr>QBittorrentResult.success = True, port = Some p, error = None, is_auth_error = False\<rparr>"

definition QBittorrent_timed_out :: QBittorrentResult where
  "QBittorrent_timed_out =
     \<lparr>QBittorrentResult.success = False, port = None, error = Some ''Request timed out'',
      is_auth_error = False\<rparr>"

definition QBittorrent_auth_failed :: QBittorrentResult where
  "QBittorrent_auth_failed =
     \<lparr>QBittorrentResult.success = False, port = None, error = Some ''Authentication failed'',
      is_auth_error = True\<rparr>"

text \<open>Services that give the same answers whatever happened before.\<close>

definition fixed_services ::
  "GluetunResult \<Rightarrow> QBittorrentResult \<Rightarrow> QBittorrentResult \<Rightarrow> Services" where
  "fixed_services g q w =
     \<lparr>gluetun_get_forwarded_port = (\<lambda>h. g),
      qbittorrent_get_listen_port = (\<lambda>h. q),
      qbittorrent_set_listen_port = (\<lambda>h p. w)\<rparr>"

text \<open>
  A client that listens on \<open>start\<close> until a port is written and on the last port written
  from then on, behind a gateway that forwards \<open>fwd\<close>.
\<close>

fun last_written :: "int \<Rightarrow> call list \<Rightarrow> int" where
  "last_written cur [] = cur"
| "last_written cur (SetListenPort p r # cs) = last_written p cs"
| "last_written cur (c # cs) = last_written cur cs"

definition obedient_services :: "int \<Rightarrow> int \<Rightarrow> Services" where
  "obedient_services fwd start =
     \<lparr>gluetun_get_forwarded_port = (\<lambda>h. Gluetun_port fwd),
      qbittorrent_get_listen_port = (\<lambda>h. QBittorrent_port (last_written start h)),
      qbittorrent_set_listen_port = (\<lambda>h p. QBittorrent_port p)\<rparr>"

text \<open>
  A gateway that times out until the orchestrator has slept once and has no port to
  forward after that, with a client that listens on \<open>start\<close>.
\<close>

definition late_gateway_services :: "int \<Rightarrow> Services" where
  "late_gateway_services start =
     \<lparr>gluetun_get_forwarded_port =
        (\<lambda>h. if \<exists>d. Sleep d \<in> set h then Gluetun_no_port else Gluetun_timed_out),
      qbittorrent_get_listen_port = (\<lambda>h. QBittorrent_port start),
      qbittorrent_set_listen_port = (\<lambda>h p. QBittorrent_port p)\<rparr>"

text \<open>
  A client whose session lapses after its first read, behind a gateway that forwards
  \<open>fwd\<close>: the first read answers \<open>start\<close>, every write and the second read are
  rejected as authentication failures, and the reads after that answer \<open>fwd\<close>.
\<close>

definition lapsed_session_services :: "int \<Rightarrow> int \<Rightarrow> Services" where
  "lapsed_session_services fwd start =
     \<lparr>gluetun_get_forwarded_port = (\<lambda>h. Gluetun_port fwd),
      qbittorrent_get_listen_port =
        (\<lambda>h. case client_reads h of
                [] \<Rightarrow> QBittorrent_port start
              | [r] \<Rightarrow> QBittorrent_auth_failed
              | r # r' # rs \<Rightarrow> QBittorrent_port fwd),
      qbittorrent_set_listen_port = (\<lambda>h p. QBittorrent_auth_failed)\<rparr>"

text \<open>The defaults of \<^verbatim>\<open>config.py\<close>, with the two verification settings left open.\<close>

definition config_with :: "int \<Rightarrow> int \<Rightarrow> Config" where
  "config_with delay attempts =
     \<lparr>startup_check_interval = 5, startup_max_attempts = 60,
      verify_delay = delay, verify_max_attempts = attempts\<rparr>"

definition startup_config :: "int \<Rightarrow> Config" where
  "startup_config attempts =
     \<lparr>startup_check_interval = 5, startup_max_attempts = attempts,
      verify_delay = 2, verify_max_attempts = 3\<rparr>"

text \<open>The state at process start, and a state in which the client was last seen down.\<close>

definition SyncState_init :: SyncState where
  "SyncState_init = \<lparr>health_state = HealthState_init, calls = []\<rparr>"

definition client_down_state :: SyncState where
  "client_down_state =
     \<lparr>health_state = set_service_status True False HealthState_init, calls = []\<rparr>"

section \<open>The health state\<close>

lemma str_contains_prefix: "str_contains sub (sub @ rest)"
proof (cases "sub @ rest")
  case Nil
  then show ?thesis by simp
next
  case (Cons c cs)
  have "prefix sub (sub @ rest)" by simp
  with Cons show ?thesis by simp
qed

text \<open>\<open>str_contains\<close> is the contiguous-sublist relation of the library.\<close>

lemma str_contains_iff_sublist: "str_contains sub s \<longleftrightarrow> sublist sub s"
  by (induction s) (auto simp: sublist_Cons_right)

lemma healthy_set_service_status [simp]:
  "healthy (set_service_status g q st) = (g \<and> q)"
  by (simp add: set_service_status_def Let_def)

lemma flags_set_service_status [simp]:
  "gluetun_ok (set_service_status g q st) = g"
  "qbittorrent_ok (set_service_status g q st) = q"
  by (simp_all add: set_service_status_def Let_def)

lemma set_service_status_both:
  "set_service_status True True st =
     st\<lparr>healthy := True, reason := '''', gluetun_ok := True, qbittorrent_ok := True\<rparr>"
  by (simp add: set_service_status_def)

text \<open>
  C5 (as the code has it). \<^verbatim>\<open>set_service_status(True, True)\<close> yields healthy with the
  empty reason. \<^verbatim>\<open>set_service_status(False, True)\<close> yields unhealthy with the reason
  \<^verbatim>\<open>Gluetun unreachable\<close>, which contains the gateway's name \<^verbatim>\<open>Gluetun\<close> and not the
  client's name \<^verbatim>\<open>qBittorrent\<close>; \<^verbatim>\<open>set_service_status(True, False)\<close> yields unhealthy
  with the reason \<^verbatim>\<open>qBittorrent unreachable\<close>, which contains \<^verbatim>\<open>qBittorrent\<close> and not
  \<^verbatim>\<open>Gluetun\<close>. This holds from every prior state.
\<close>

theorem set_service_status_reasons:
  "healthy (set_service_status True True st)
   \<and> reason (set_service_status True True st) = ''''
   \<and> \<not> healthy (set_service_status False True st)
   \<and> reason (set_service_status False True st) = ''Gluetun unreachable''
   \<and> str_contains ''Gluetun'' (reason (set_service_status False True st))
   \<and> \<not> str_contains ''qBittorrent'' (reason (set_service_status False True st))
   \<and> \<not> healthy (set_service_status True False st)
   \<and> reason (set_service_status True False st) = ''qBittorrent unreachable''
   \<and> str_contains ''qBittorrent'' (reason (set_service_status True False st))
   \<and> \<not> str_contains ''Gluetun'' (reason (set_service_status True False st))"
  by (simp add: set_service_status_def)

text \<open>
  C5 as stated fails: the reason after \<^verbatim>\<open>set_service_status(False, True)\<close> does not
  contain the word \<^verbatim>\<open>gateway\<close>, in either capitalisation, and the reason after
  \<^verbatim>\<open>set_service_status(True, False)\<close> does not contain the word \<^verbatim>\<open>client\<close>.
\<close>

theorem set_service_status_reason_words:
  "\<not> str_contains ''gateway'' (reason (set_service_status False True HealthState_init))
   \<and> \<not> str_contains ''Gateway'' (reason (set_service_status False True HealthState_init))
   \<and> \<not> str_contains ''client'' (reason (set_service_status True False HealthState_init))
   \<and> \<not> str_contains ''Client'' (reason (set_service_status True False HealthState_init))"
  by (simp add: set_service_status_def)

lemma health_apply_keeps:
  "healthy_without_reason c \<Longrightarrow> (healthy st \<longrightarrow> reason st = '''')
     \<Longrightarrow> healthy (health_apply st c) \<longrightarrow> reason (health_apply st c) = ''''"
  by (cases c) (auto simp: set_healthy_def set_service_status_def Let_def)

lemma foldl_health_apply_keeps:
  "\<forall>c\<in>set cs. healthy_without_reason c \<Longrightarrow> (healthy st \<longrightarrow> reason st = '''')
     \<Longrightarrow> healthy (foldl health_apply st cs) \<longrightarrow> reason (foldl health_apply st cs) = ''''"
proof (induction cs arbitrary: st)
  case Nil
  then show ?case by simp
next
  case (Cons c cs)
  have "healthy (health_apply st c) \<longrightarrow> reason (health_apply st c) = ''''"
    using Cons.prems by (intro health_apply_keeps) simp_all
  with Cons show ?case by simp
qed

text \<open>
  C6 (as the code has it). In every health state reached from the initial state by a
  sequence of \<^verbatim>\<open>set_healthy\<close> and \<^verbatim>\<open>set_service_status\<close> calls in which every
  \<^verbatim>\<open>set_healthy\<close> call with \<^verbatim>\<open>healthy=True\<close> passes the empty reason, healthy implies
  that the reason is the empty string.
\<close>

theorem healthy_has_empty_reason:
  "\<forall>c\<in>set cs. healthy_without_reason c \<Longrightarrow>
     healthy (health_run cs) \<longrightarrow> reason (health_run cs) = ''''"
  unfolding health_run_def
  by (rule foldl_health_apply_keeps) (simp_all add: HealthState_init_def)

theorem healthy_has_empty_reason_witness:
  "healthy_without_reason (SetServiceStatus False True)
   \<and> healthy_without_reason (SetHealthy False ''qBittorrent auth error: None'')
   \<and> healthy_without_reason (SetServiceStatus True True)
   \<and> healthy (health_run [SetServiceStatus False True,
                 SetHealthy False ''qBittorrent auth error: None'', SetServiceStatus True True])
   \<and> reason (health_run [SetServiceStatus False True,
                 SetHealthy False ''qBittorrent auth error: None'', SetServiceStatus True True])
       = ''''"
  using healthy_has_empty_reason
    [of "[SetServiceStatus False True, SetHealthy False ''qBittorrent auth error: None'',
          SetServiceStatus True True]"]
  by (simp add: health_run_def set_service_status_def set_healthy_def HealthState_init_def)

text \<open>
  C6 as stated fails: \<^verbatim>\<open>set_healthy(True, "ok")\<close> on the initial state gives a healthy
  state whose reason is not empty.
\<close>

theorem set_healthy_true_keeps_reason:
  "healthy (health_run [SetHealthy True ''ok''])
   \<and> reason (health_run [SetHealthy True ''ok'']) \<noteq> ''''"
  by (simp add: health_run_def set_healthy_def HealthState_init_def)

section \<open>The reconcile cycle\<close>

lemma new_calls_append [simp]:
  "calls s' = calls s @ cs \<Longrightarrow> new_calls s s' = cs"
  by (simp add: new_calls_def)

lemma get_forwarded_port_eq:
  "get_forwarded_port env s =
     (gluetun_get_forwarded_port env (calls s),
      s\<lparr>calls := calls s @ [GetForwardedPort (gluetun_get_forwarded_port env (calls s))]\<rparr>)"
  by (simp add: get_forwarded_port_def Let_def)

lemma get_listen_port_eq:
  "get_listen_port env s =
     (qbittorrent_get_listen_port env (calls s),
      s\<lparr>calls := calls s @ [GetListenPort (qbittorrent_get_listen_port env (calls s))]\<rparr>)"
  by (simp add: get_listen_port_def Let_def)

lemma set_listen_port_eq:
  "set_listen_port env p s =
     (qbittorrent_set_listen_port env (calls s) p,
      s\<lparr>calls := calls s @ [SetListenPort p (qbittorrent_set_listen_port env (calls s) p)]\<rparr>)"
  by (simp add: set_listen_port_def Let_def)

lemmas client_calls = get_forwarded_port_eq get_listen_port_eq set_listen_port_eq

lemmas example_results =
  Gluetun_port_def Gluetun_no_port_def Gluetun_timed_out_def Gluetun_auth_failed_def
  QBittorrent_port_def QBittorrent_timed_out_def QBittorrent_auth_failed_def

subsection \<open>The gateway's query fails\<close>

text \<open>
  C1 (as the code has it). In a cycle whose gateway query returns a transient failure
  (not successful, not an authentication error), the cycle marks the gateway
  unreachable, sets the client's reachability flag to reachable whatever it was before,
  makes no call but the gateway query, so does not query the client, and returns
  failure; the health reason is \<^verbatim>\<open>Gluetun unreachable\<close>.
\<close>

theorem sync_port_gateway_unreachable:
  assumes "sync_port cfg env s = (out, s')"
    and "g = gluetun_get_forwarded_port env (calls s)"
    and "\<not> GluetunResult.is_auth_error g" and "\<not> GluetunResult.success g"
  shows "out = Returns False
     \<and> new_calls s s' = [GetForwardedPort g]
     \<and> client_reads (new_calls s s') = []
     \<and> \<not> gluetun_ok (health_state s')
     \<and> qbittorrent_ok (health_state s')
     \<and> \<not> healthy (health_state s')
     \<and> reason (health_state s') = ''Gluetun unreachable''"
  using assms
  by (auto simp: sync_port_def client_calls Let_def set_service_status_def)

theorem sync_port_gateway_unreachable_witness:
  "fst (sync_port (config_with 2 3)
          (fixed_services Gluetun_timed_out (QBittorrent_port 12345) (QBittorrent_port 12345))
          client_down_state) = Returns False
   \<and> new_calls client_down_state
        (snd (sync_port (config_with 2 3)
          (fixed_services Gluetun_timed_out (QBittorrent_port 12345) (QBittorrent_port 12345))
          client_down_state)) = [GetForwardedPort Gluetun_timed_out]
   \<and> reason (health_state
        (snd (sync_port (config_with 2 3)
          (fixed_services Gluetun_timed_out (QBittorrent_port 12345) (QBittorrent_port 12345))
          client_down_state))) = ''Gluetun unreachable''"
  using sync_port_gateway_unreachable
    [of "config_with 2 3"
        "fixed_services Gluetun_timed_out (QBittorrent_port 12345) (QBittorrent_port 12345)"
        client_down_state _ _ Gluetun_timed_out, OF prod.collapse [symmetric]]
  by (simp add: fixed_services_def Gluetun_timed_out_def client_down_state_def)

text \<open>
  C1 as stated fails: from a state in which the client was last seen unreachable, a
  cycle whose gateway query times out ends with the client's flag set to reachable, so
  the flag is not left as it was.
\<close>

theorem sync_port_sets_client_reachable:
  "\<not> GluetunResult.is_auth_error Gluetun_timed_out
   \<and> \<not> GluetunResult.success Gluetun_timed_out
   \<and> \<not> qbittorrent_ok (health_state client_down_state)
   \<and> qbittorrent_ok (health_state
        (snd (sync_port (config_with 2 3)
          (fixed_services Gluetun_timed_out (QBittorrent_port 12345) (QBittorrent_port 12345))
          client_down_state)))"
  by (simp add: sync_port_def client_calls fixed_services_def Gluetun_timed_out_def
      client_down_state_def)

subsection \<open>Authentication failures\<close>

text \<open>
  C4 (as the code has it). The two queries that open the cycle test for an
  authentication failure. When the gateway's port query returns one, the cycle returns
  failure, makes no further call, sets healthy to false with the reason
  \<^verbatim>\<open>Gluetun auth error: ...\<close>, which mentions Gluetun, and changes neither reachability
  flag. When the gateway reports a port and the client's query of its current port
  returns one, the cycle returns failure, makes no call after that query (no write, no
  verification read), sets healthy to false with the reason
  \<^verbatim>\<open>qBittorrent auth error: ...\<close>, which mentions qBittorrent, and changes neither
  reachability flag. The write and the verification reads are not covered: they only
  test for success.
\<close>

theorem sync_port_auth_failure:
  assumes "sync_port cfg env s = (out, s')"
    and "g = gluetun_get_forwarded_port env (calls s)"
    and "q = qbittorrent_get_listen_port env (calls s @ [GetForwardedPort g])"
  shows "(GluetunResult.is_auth_error g \<longrightarrow>
            out = Returns False
          \<and> new_calls s s' = [GetForwardedPort g]
          \<and> \<not> healthy (health_state s')
          \<and> reason (health_state s')
              = ''Gluetun auth error: '' @ fmt_str_opt (GluetunResult.error g)
          \<and> str_contains ''Gluetun'' (reason (health_state s'))
          \<and> gluetun_ok (health_state s') = gluetun_ok (health_state s)
          \<and> qbittorrent_ok (health_state s') = qbittorrent_ok (health_state s))
       \<and> (\<not> GluetunResult.is_auth_error g \<and> GluetunResult.success g
            \<and> GluetunResult.port g = Some p \<and> QBittorrentResult.is_auth_error q \<longrightarrow>
            out = Returns False
          \<and> new_calls s s' = [GetForwardedPort g, GetListenPort q]
          \<and> write_calls (new_calls s s') = []
          \<and> \<not> healthy (health_state s')
          \<and> reason (health_state s')
              = ''qBittorrent auth error: '' @ fmt_str_opt (QBittorrentResult.error q)
          \<and> str_contains ''qBittorrent'' (reason (health_state s'))
          \<and> gluetun_ok (health_state s') = gluetun_ok (health_state s)
          \<and> qbittorrent_ok (health_state s') = qbittorrent_ok (health_state s))"
proof (intro conjI impI)
  assume a: "GluetunResult.is_auth_error g"
  have r: "sync_port cfg env s =
      (Returns False,
       s\<lparr>calls := calls s @ [GetForwardedPort g],
         health_state := set_healthy False
           (''Gluetun auth error: '' @ fmt_str_opt (GluetunResult.error g)) (health_state s)\<rparr>)"
    using a assms(2) by (simp add: sync_port_def client_calls)
  from r assms(1) show "out = Returns False" by simp
  from r assms(1) show "new_calls s s' = [GetForwardedPort g]" by auto
  from r assms(1) show "\<not> healthy (health_state s')" by (auto simp: set_healthy_def)
  from r assms(1) show "reason (health_state s')
      = ''Gluetun auth error: '' @ fmt_str_opt (GluetunResult.error g)"
    by (auto simp: set_healthy_def)
  then show "str_contains ''Gluetun'' (reason (health_state s'))"
    using str_contains_prefix [of "''Gluetun''"] by simp
  from r assms(1) show "gluetun_ok (health_state s') = gluetun_ok (health_state s)"
    by (auto simp: set_healthy_def)
  from r assms(1) show "qbittorrent_ok (health_state s') = qbittorrent_ok (health_state s)"
    by (auto simp: set_healthy_def)
next
  assume a: "\<not> GluetunResult.is_auth_error g \<and> GluetunResult.success g
      \<and> GluetunResult.port g = Some p \<and> QBittorrentResult.is_auth_error q"
  have r: "sync_port cfg env s =
      (Returns False,
       s\<lparr>calls := calls s @ [GetForwardedPort g, GetListenPort q],
         health_state := set_healthy False
           (''qBittorrent auth error: '' @ fmt_str_opt (QBittorrentResult.error q))
           (health_state s)\<rparr>)"
    using a assms(2,3) by (simp add: sync_port_def client_calls)
  from r assms(1) show "out = Returns False" by simp
  from r assms(1) show n: "new_calls s s' = [GetForwardedPort g, GetListenPort q]" by auto
  show "write_calls (new_calls s s') = []" by (simp add: n)
  from r assms(1) show "\<not> healthy (health_state s')" by (auto simp: set_healthy_def)
  from r assms(1) show "reason (health_state s')
      = ''qBittorrent auth error: '' @ fmt_str_opt (QBittorrentResult.error q)"
    by (auto simp: set_healthy_def)
  then show "str_contains ''qBittorrent'' (reason (health_state s'))"
    using str_contains_prefix [of "''qBittorrent''"] by simp
  from r assms(1) show "gluetun_ok (health_state s') = gluetun_ok (health_state s)"
    by (auto simp: set_healthy_def)
  from r assms(1) show "qbittorrent_ok (health_state s') = qbittorrent_ok (health_state s)"
    by (auto simp: set_healthy_def)
qed

theorem sync_port_auth_failure_witness:
  "GluetunResult.is_auth_error Gluetun_auth_failed
   \<and> fst (sync_port (config_with 2 3)
          (fixed_services Gluetun_auth_failed (QBittorrent_port 12345) (QBittorrent_port 12345))
          client_down_state) = Returns False
   \<and> reason (health_state (snd (sync_port (config_with 2 3)
          (fixed_services Gluetun_auth_failed (QBittorrent_port 12345) (QBittorrent_port 12345))
          client_down_state))) = ''Gluetun auth error: Authentication failed''
   \<and> \<not> qbittorrent_ok (health_state (snd (sync_port (config_with 2 3)
          (fixed_services Gluetun_auth_failed (QBittorrent_port 12345) (QBittorrent_port 12345))
          client_down_state)))
   \<and> QBittorrentResult.is_auth_error QBittorrent_auth_failed
   \<and> fst (sync_port (config_with 2 3)
          (fixed_services (Gluetun_port 54321) QBittorrent_auth_failed (QBittorrent_port 54321))
          SyncState_init) = Returns False
   \<and> new_calls SyncState_init (snd (sync_port (config_with 2 3)
          (fixed_services (Gluetun_port 54321) QBittorrent_auth_failed (QBittorrent_port 54321))
          SyncState_init))
       = [GetForwardedPort (Gluetun_port 54321), GetListenPort QBittorrent_auth_failed]
   \<and> reason (health_state (snd (sync_port (config_with 2 3)
          (fixed_services (Gluetun_port 54321) QBittorrent_auth_failed (QBittorrent_port 54321))
          SyncState_init))) = ''qBittorrent auth error: Authentication failed''
   \<and> \<not> gluetun_ok (health_state (snd (sync_port (config_with 2 3)
          (fixed_services (Gluetun_port 54321) QBittorrent_auth_failed (QBittorrent_port 54321))
          SyncState_init)))"
  using sync_port_auth_failure
    [of "config_with 2 3"
        "fixed_services Gluetun_auth_failed (QBittorrent_port 12345) (QBittorrent_port 12345)"
        client_down_state _ _ Gluetun_auth_failed "QBittorrent_port 12345" 0,
     OF prod.collapse [symmetric]]
    sync_port_auth_failure
    [of "config_with 2 3"
        "fixed_services (Gluetun_port 54321) QBittorrent_auth_failed (QBittorrent_port 54321)"
        SyncState_init _ _ "Gluetun_port 54321" QBittorrent_auth_failed 54321,
     OF prod.collapse [symmetric]]
  by (simp add: fixed_services_def example_results client_down_state_def SyncState_init_def
      HealthState_init_def fmt_str_opt_def)

text \<open>
  C4 as stated fails for the client's later queries. From the initial state, with a
  client whose write and first verification read are rejected as authentication
  failures: the cycle goes on calling after both, returns success at the next read,
  ends healthy, and has set both reachability flags.
\<close>

theorem sync_port_ignores_later_auth_failure:
  "new_calls SyncState_init
     (snd (sync_port (config_with 2 3) (lapsed_session_services 54321 12345) SyncState_init))
     = [GetForwardedPort (Gluetun_port 54321), GetListenPort (QBittorrent_port 12345),
        SetListenPort 54321 QBittorrent_auth_failed,
        Sleep 2, GetListenPort QBittorrent_auth_failed,
        Sleep 2, GetListenPort (QBittorrent_port 54321)]
   \<and> is_auth_failure (SetListenPort 54321 QBittorrent_auth_failed)
   \<and> is_auth_failure (GetListenPort QBittorrent_auth_failed)
   \<and> fst (sync_port (config_with 2 3) (lapsed_session_services 54321 12345) SyncState_init)
       = Returns True
   \<and> healthy (health_state
        (snd (sync_port (config_with 2 3) (lapsed_session_services 54321 12345)
           SyncState_init)))
   \<and> \<not> gluetun_ok (health_state SyncState_init)
   \<and> gluetun_ok (health_state
        (snd (sync_port (config_with 2 3) (lapsed_session_services 54321 12345)
           SyncState_init)))
   \<and> \<not> qbittorrent_ok (health_state SyncState_init)
   \<and> qbittorrent_ok (health_state
        (snd (sync_port (config_with 2 3) (lapsed_session_services 54321 12345)
           SyncState_init)))"
  by (simp add: sync_port_def client_calls time_sleep_def lapsed_session_services_def
      example_results SyncState_init_def HealthState_init_def config_with_def
      new_calls_def upto_rec1)

subsection \<open>The gateway has no port, or the client already has it\<close>

text \<open>
  C8. In a cycle whose gateway query succeeds with no port, the cycle marks both sides
  reachable (and the state healthy), returns success, and makes no call but the gateway
  query: no client read, no write, no verification read.
\<close>

theorem sync_port_no_port:
  assumes "sync_port cfg env s = (out, s')"
    and "g = gluetun_get_forwarded_port env (calls s)"
    and "\<not> GluetunResult.is_auth_error g" and "GluetunResult.success g"
    and "GluetunResult.port g = None"
  shows "out = Returns True
     \<and> new_calls s s' = [GetForwardedPort g]
     \<and> client_reads (new_calls s s') = []
     \<and> write_calls (new_calls s s') = []
     \<and> verification_reads (new_calls s s') = []
     \<and> gluetun_ok (health_state s')
     \<and> qbittorrent_ok (health_state s')
     \<and> healthy (health_state s')
     \<and> reason (health_state s') = ''''"
  using assms
  by (auto simp: sync_port_def client_calls set_service_status_both verification_reads_def)

theorem sync_port_no_port_witness:
  "fst (sync_port (config_with 2 3)
          (fixed_services Gluetun_no_port QBittorrent_timed_out QBittorrent_timed_out)
          SyncState_init) = Returns True
   \<and> new_calls SyncState_init
        (snd (sync_port (config_with 2 3)
          (fixed_services Gluetun_no_port QBittorrent_timed_out QBittorrent_timed_out)
          SyncState_init)) = [GetForwardedPort Gluetun_no_port]
   \<and> healthy (health_state
        (snd (sync_port (config_with 2 3)
          (fixed_services Gluetun_no_port QBittorrent_timed_out QBittorrent_timed_out)
          SyncState_init)))"
  using sync_port_no_port
    [of "config_with 2 3"
        "fixed_services Gluetun_no_port QBittorrent_timed_out QBittorrent_timed_out"
        SyncState_init _ _ Gluetun_no_port, OF prod.collapse [symmetric]]
  by (simp add: fixed_services_def Gluetun_no_port_def SyncState_init_def)

text \<open>
  C9. In a cycle in which the gateway reports a port and the client's read returns the
  same port, the cycle returns success and makes no write call: its only calls are the
  two reads.
\<close>

theorem sync_port_unchanged:
  assumes "sync_port cfg env s = (out, s')"
    and "g = gluetun_get_forwarded_port env (calls s)"
    and "q = qbittorrent_get_listen_port env (calls s @ [GetForwardedPort g])"
    and "\<not> GluetunResult.is_auth_error g" and "GluetunResult.success g"
    and "GluetunResult.port g = Some p"
    and "\<not> QBittorrentResult.is_auth_error q" and "QBittorrentResult.success q"
    and "QBittorrentResult.port q = Some p"
  shows "out = Returns True
     \<and> write_calls (new_calls s s') = []
     \<and> new_calls s s' = [GetForwardedPort g, GetListenPort q]"
  using assms
  by (auto simp: sync_port_def client_calls Let_def)

theorem sync_port_unchanged_witness:
  "fst (sync_port (config_with 2 3) (obedient_services 54321 54321) SyncState_init)
     = Returns True
   \<and> write_calls (new_calls SyncState_init
        (snd (sync_port (config_with 2 3) (obedient_services 54321 54321) SyncState_init)))
     = []"
  using sync_port_unchanged
    [of "config_with 2 3" "obedient_services 54321 54321" SyncState_init _ _
        "Gluetun_port 54321" "QBittorrent_port 54321" 54321, OF prod.collapse [symmetric]]
  by (simp add: obedient_services_def example_results SyncState_init_def)

subsection \<open>The verification loop\<close>

lemma write_calls_append [simp]: "write_calls (xs @ ys) = write_calls xs @ write_calls ys"
  by (induction xs rule: write_calls.induct) simp_all

lemma client_reads_append [simp]: "client_reads (xs @ ys) = client_reads xs @ client_reads ys"
  by (induction xs rule: client_reads.induct) simp_all

lemma gateway_reads_append [simp]:
  "gateway_reads (xs @ ys) = gateway_reads xs @ gateway_reads ys"
  by (induction xs rule: gateway_reads.induct) simp_all

lemma length_upto_attempts [simp]: "length [1..n] = nat n"
  by simp

text \<open>
  What the loop does when sleeping does not raise: it only sleeps and reads, at most
  once per attempt; it returns \<open>True\<close> at the first read that answers with the target
  port, and runs out when no read does, with \<^verbatim>\<open>verify_result\<close> bound as soon as there
  was one attempt.
\<close>

lemma verify_loop_runs:
  assumes "0 \<le> verify_delay cfg" and "verify_delay cfg \<le> 9223372036"
  shows "\<exists>ex vs. verify_loop cfg env t as vr s = (ex, s\<lparr>calls := calls s @ vs\<rparr>)
       \<and> write_calls vs = []
       \<and> length (client_reads vs) \<le> length as
       \<and> (as \<noteq> [] \<longrightarrow> client_reads vs \<noteq> [])
       \<and> ((ex = LReturn True \<and> (\<exists>r\<in>set (client_reads vs). reads_port t r))
          \<or> ((\<exists>v. ex = LDone v \<and> (v = None \<longrightarrow> vr = None \<and> as = []))
              \<and> length (client_reads vs) = length as
              \<and> (\<forall>r\<in>set (client_reads vs). \<not> reads_port t r)))"
proof (induction as arbitrary: vr s)
  case Nil
  show ?case by (rule exI [of _ "LDone vr"], rule exI [of _ "[]"]) simp
next
  case (Cons a as)
  define r where "r = qbittorrent_get_listen_port env (calls s @ [Sleep (verify_delay cfg)])"
  define s2 where "s2 = s\<lparr>calls := calls s @ [Sleep (verify_delay cfg), GetListenPort r]\<rparr>"
  show ?case
  proof (cases "reads_port t r")
    case True
    then have "verify_loop cfg env t (a # as) vr s = (LReturn True, s2)"
      using assms by (simp add: time_sleep_def get_listen_port_eq r_def s2_def reads_port_def)
    then show ?thesis
      using True
      by (intro exI [of _ "LReturn True"] exI [of _ "[Sleep (verify_delay cfg), GetListenPort r]"])
         (simp add: s2_def)
  next
    case False
    then have step: "verify_loop cfg env t (a # as) vr s = verify_loop cfg env t as (Some r) s2"
      using assms by (auto simp: time_sleep_def get_listen_port_eq r_def s2_def reads_port_def)
    from Cons.IH [of "Some r" s2] obtain ex vs where
      run: "verify_loop cfg env t as (Some r) s2 = (ex, s2\<lparr>calls := calls s2 @ vs\<rparr>)"
      and w: "write_calls vs = []"
      and len: "length (client_reads vs) \<le> length as"
      and res: "(ex = LReturn True \<and> (\<exists>r\<in>set (client_reads vs). reads_port t r))
          \<or> ((\<exists>v. ex = LDone v \<and> (v = None \<longrightarrow> Some r = None \<and> as = []))
              \<and> length (client_reads vs) = length as
              \<and> (\<forall>r\<in>set (client_reads vs). \<not> reads_port t r))"
      by blast
    have st: "s2\<lparr>calls := calls s2 @ vs\<rparr>
        = s\<lparr>calls := calls s @ ([Sleep (verify_delay cfg), GetListenPort r] @ vs)\<rparr>"
      by (simp add: s2_def)
    show ?thesis
      using step run w len res False unfolding st
      by (intro exI [of _ ex] exI [of _ "[Sleep (verify_delay cfg), GetListenPort r] @ vs"])
         auto
  qed
qed

text \<open>
  A delay that \<^verbatim>\<open>time.sleep\<close> refuses: the first pass of the loop raises before any
  read.
\<close>

lemma verify_loop_sleep_raises:
  "verify_delay cfg < 0 \<or> 9223372036 < verify_delay cfg \<Longrightarrow>
     \<exists>e. verify_loop cfg env t (a # as) vr s = (LRaise e, s)"
  by (auto simp: time_sleep_def)

text \<open>
  The loop together with the statements after it, as \<^verbatim>\<open>sync_port\<close> runs them: with at
  least one attempt and a delay that \<^verbatim>\<open>time.sleep\<close> accepts, the cycle returns, \<open>True\<close>
  exactly when a verification read answered with the target port, and \<open>False\<close> only
  after all attempts were spent.
\<close>

lemma verify_and_report:
  assumes "1 \<le> verify_max_attempts cfg"
    and "0 \<le> verify_delay cfg" and "verify_delay cfg \<le> 9223372036"
  shows "\<exists>b vs.
      (case verify_loop cfg env t [1..verify_max_attempts cfg] None s of
         (LReturn b, s5) \<Rightarrow> (Returns b, s5)
       | (LRaise e, s5) \<Rightarrow> (Raises e, s5)
       | (LDone verify_result, s5) \<Rightarrow>
           (case verify_result of
              None \<Rightarrow> (Raises UnboundLocalError, s5)
            | Some v \<Rightarrow> (Returns False, s5)))
        = (Returns b, s\<lparr>calls := calls s @ vs\<rparr>)
      \<and> write_calls vs = []
      \<and> client_reads vs \<noteq> []
      \<and> length (client_reads vs) \<le> nat (verify_max_attempts cfg)
      \<and> (b \<longleftrightarrow> (\<exists>r\<in>set (client_reads vs). reads_port t r))
      \<and> (\<not> b \<longrightarrow> length (client_reads vs) = nat (verify_max_attempts cfg))"
proof -
  let ?as = "[1..verify_max_attempts cfg]"
  have ne: "?as \<noteq> []" using assms(1) by (simp add: upto_rec1)
  from verify_loop_runs [OF assms(2,3), of env t ?as None s] obtain ex vs where
    run: "verify_loop cfg env t ?as None s = (ex, s\<lparr>calls := calls s @ vs\<rparr>)"
    and w: "write_calls vs = []"
    and len: "length (client_reads vs) \<le> length ?as"
    and some: "client_reads vs \<noteq> []"
    and res: "(ex = LReturn True \<and> (\<exists>r\<in>set (client_reads vs). reads_port t r))
          \<or> ((\<exists>v. ex = LDone v \<and> (v = None \<longrightarrow> None = (None :: QBittorrentResult option) \<and> ?as = []))
              \<and> length (client_reads vs) = length ?as
              \<and> (\<forall>r\<in>set (client_reads vs). \<not> reads_port t r))"
    using ne by blast
  from res show ?thesis
  proof
    assume "ex = LReturn True \<and> (\<exists>r\<in>set (client_reads vs). reads_port t r)"
    then show ?thesis
      using run w len some by (intro exI [of _ True] exI [of _ vs]) simp
  next
    assume a: "(\<exists>v. ex = LDone v \<and> (v = None \<longrightarrow> None = (None :: QBittorrentResult option) \<and> ?as = []))
              \<and> length (client_reads vs) = length ?as
              \<and> (\<forall>r\<in>set (client_reads vs). \<not> reads_port t r)"
    then obtain v where "ex = LDone (Some v)" using ne by (cases ex) auto
    then show ?thesis
      using run w len some a by (intro exI [of _ False] exI [of _ vs]) simp
  qed
qed

subsection \<open>The client has another port\<close>

text \<open>
  The path of \<^verbatim>\<open>sync_port\<close> on which the gateway reports a port and the client's read
  returns another: the state in which the verification loop starts.
\<close>

lemma sync_port_reaches_verification:
  assumes "g = gluetun_get_forwarded_port env (calls s)"
    and "q = qbittorrent_get_listen_port env (calls s @ [GetForwardedPort g])"
    and "w = qbittorrent_set_listen_port env
               (calls s @ [GetForwardedPort g, GetListenPort q]) target"
    and "s4 = s\<lparr>health_state := set_service_status True True (health_state s),
                 calls := calls s @ [GetForwardedPort g, GetListenPort q, SetListenPort target w]\<rparr>"
    and "\<not> GluetunResult.is_auth_error g" and "GluetunResult.success g"
    and "GluetunResult.port g = Some target"
    and "\<not> QBittorrentResult.is_auth_error q" and "QBittorrentResult.success q"
    and "QBittorrentResult.port q \<noteq> Some target"
  shows "sync_port cfg env s =
      (case verify_loop cfg env target [1..verify_max_attempts cfg] None s4 of
         (LReturn b, s5) \<Rightarrow> (Returns b, s5)
       | (LRaise e, s5) \<Rightarrow> (Raises e, s5)
       | (LDone verify_result, s5) \<Rightarrow>
           (case verify_result of
              None \<Rightarrow> (Raises UnboundLocalError, s5)
            | Some v \<Rightarrow> (Returns False, s5)))"
  using assms by (simp add: sync_port_def client_calls Let_def)

lemma sync_port_verifies:
  assumes "g = gluetun_get_forwarded_port env (calls s)"
    and "q = qbittorrent_get_listen_port env (calls s @ [GetForwardedPort g])"
    and "w = qbittorrent_set_listen_port env
               (calls s @ [GetForwardedPort g, GetListenPort q]) target"
    and "\<not> GluetunResult.is_auth_error g" and "GluetunResult.success g"
    and "GluetunResult.port g = Some target"
    and "\<not> QBittorrentResult.is_auth_error q" and "QBittorrentResult.success q"
    and "QBittorrentResult.port q \<noteq> Some target"
    and "1 \<le> verify_max_attempts cfg"
    and "0 \<le> verify_delay cfg" and "verify_delay cfg \<le> 9223372036"
  shows "\<exists>b vs. sync_port cfg env s =
        (Returns b,
         s\<lparr>health_state := set_service_status True True (health_state s),
           calls := calls s
             @ [GetForwardedPort g, GetListenPort q, SetListenPort target w] @ vs\<rparr>)
      \<and> write_calls vs = []
      \<and> client_reads vs \<noteq> []
      \<and> length (client_reads vs) \<le> nat (verify_max_attempts cfg)
      \<and> (b \<longleftrightarrow> (\<exists>r\<in>set (client_reads vs). reads_port target r))
      \<and> (\<not> b \<longrightarrow> length (client_reads vs) = nat (verify_max_attempts cfg))"
proof -
  define s4 where
    "s4 = s\<lparr>health_state := set_service_status True True (health_state s),
             calls := calls s @ [GetForwardedPort g, GetListenPort q, SetListenPort target w]\<rparr>"
  from verify_and_report [OF assms(10,11,12), of env target s4] obtain b vs where
    tail: "(case verify_loop cfg env target [1..verify_max_attempts cfg] None s4 of
         (LReturn b, s5) \<Rightarrow> (Returns b, s5)
       | (LRaise e, s5) \<Rightarrow> (Raises e, s5)
       | (LDone verify_result, s5) \<Rightarrow>
           (case verify_result of
              None \<Rightarrow> (Raises UnboundLocalError, s5)
            | Some v \<Rightarrow> (Returns False, s5)))
        = (Returns b, s4\<lparr>calls := calls s4 @ vs\<rparr>)"
    and rest: "write_calls vs = []" "client_reads vs \<noteq> []"
      "length (client_reads vs) \<le> nat (verify_max_attempts cfg)"
      "b \<longleftrightarrow> (\<exists>r\<in>set (client_reads vs). reads_port target r)"
      "\<not> b \<longrightarrow> length (client_reads vs) = nat (verify_max_attempts cfg)"
    by blast
  have "sync_port cfg env s = (Returns b, s4\<lparr>calls := calls s4 @ vs\<rparr>)"
    using sync_port_reaches_verification [OF assms(1-3) s4_def assms(4-9), of cfg]
    by (simp only: tail)
  then have "sync_port cfg env s =
        (Returns b,
         s\<lparr>health_state := set_service_status True True (health_state s),
           calls := calls s
             @ [GetForwardedPort g, GetListenPort q, SetListenPort target w] @ vs\<rparr>)"
    by (simp add: s4_def)
  with rest show ?thesis by blast
qed

text \<open>With no attempt configured the loop body never runs and the warning raises.\<close>

lemma sync_port_no_attempts:
  assumes "g = gluetun_get_forwarded_port env (calls s)"
    and "q = qbittorrent_get_listen_port env (calls s @ [GetForwardedPort g])"
    and "w = qbittorrent_set_listen_port env
               (calls s @ [GetForwardedPort g, GetListenPort q]) target"
    and "\<not> GluetunResult.is_auth_error g" and "GluetunResult.success g"
    and "GluetunResult.port g = Some target"
    and "\<not> QBittorrentResult.is_auth_error q" and "QBittorrentResult.success q"
    and "QBittorrentResult.port q \<noteq> Some target"
    and "verify_max_attempts cfg \<le> 0"
  shows "sync_port cfg env s =
        (Raises UnboundLocalError,
         s\<lparr>health_state := set_service_status True True (health_state s),
           calls := calls s
             @ [GetForwardedPort g, GetListenPort q, SetListenPort target w]\<rparr>)"
proof -
  have "[1..verify_max_attempts cfg] = []" using assms(10) by simp
  then show ?thesis
    using sync_port_reaches_verification [OF assms(1-3) refl assms(4-9), of cfg] by simp
qed

text \<open>With a delay that \<^verbatim>\<open>time.sleep\<close> refuses the first pass raises before it reads.\<close>

lemma sync_port_sleep_raises:
  assumes "g = gluetun_get_forwarded_port env (calls s)"
    and "q = qbittorrent_get_listen_port env (calls s @ [GetForwardedPort g])"
    and "w = qbittorrent_set_listen_port env
               (calls s @ [GetForwardedPort g, GetListenPort q]) target"
    and "\<not> GluetunResult.is_auth_error g" and "GluetunResult.success g"
    and "GluetunResult.port g = Some target"
    and "\<not> QBittorrentResult.is_auth_error q" and "QBittorrentResult.success q"
    and "QBittorrentResult.port q \<noteq> Some target"
    and "1 \<le> verify_max_attempts cfg"
    and "verify_delay cfg < 0 \<or> 9223372036 < verify_delay cfg"
  shows "\<exists>e. sync_port cfg env s =
        (Raises e,
         s\<lparr>health_state := set_service_status True True (health_state s),
           calls := calls s
             @ [GetForwardedPort g, GetListenPort q, SetListenPort target w]\<rparr>)"
proof -
  define s4 where
    "s4 = s\<lparr>health_state := set_service_status True True (health_state s),
             calls := calls s @ [GetForwardedPort g, GetListenPort q, SetListenPort target w]\<rparr>"
  have "[1..verify_max_attempts cfg] = 1 # [2..verify_max_attempts cfg]"
    using assms(10) by (simp add: upto_rec1)
  moreover from verify_loop_sleep_raises [OF assms(11)] obtain e where
    "verify_loop cfg env target (1 # [2..verify_max_attempts cfg]) None s4 = (LRaise e, s4)"
    by blast
  ultimately have "sync_port cfg env s = (Raises e, s4)"
    using sync_port_reaches_verification [OF assms(1-3) s4_def assms(4-9), of cfg] by simp
  then show ?thesis by (auto simp: s4_def)
qed

lemma verification_reads_after_write [simp]:
  "verification_reads ([GetForwardedPort g, GetListenPort q, SetListenPort t w] @ vs)
     = client_reads vs"
  by (simp add: verification_reads_def)

text \<open>
  On this path, whatever the configuration: the calls of the cycle are the two reads
  and the write, followed by sleeps and reads only; the cycle returns \<open>True\<close> exactly
  when one of the reads that follow answered with the target port; and a read follows
  when at least one attempt is configured and \<^verbatim>\<open>time.sleep\<close> accepts the delay.
\<close>

lemma sync_port_update_path:
  assumes "sync_port cfg env s = (out, s')"
    and "g = gluetun_get_forwarded_port env (calls s)"
    and "q = qbittorrent_get_listen_port env (calls s @ [GetForwardedPort g])"
    and "w = qbittorrent_set_listen_port env
               (calls s @ [GetForwardedPort g, GetListenPort q]) target"
    and "\<not> GluetunResult.is_auth_error g" and "GluetunResult.success g"
    and "GluetunResult.port g = Some target"
    and "\<not> QBittorrentResult.is_auth_error q" and "QBittorrentResult.success q"
    and "QBittorrentResult.port q \<noteq> Some target"
  shows "\<exists>vs. new_calls s s'
          = [GetForwardedPort g, GetListenPort q, SetListenPort target w] @ vs
      \<and> health_state s' = set_service_status True True (health_state s)
      \<and> write_calls vs = []
      \<and> length (client_reads vs) \<le> nat (verify_max_attempts cfg)
      \<and> (out = Returns True \<longleftrightarrow> (\<exists>r\<in>set (client_reads vs). reads_port target r))
      \<and> (1 \<le> verify_max_attempts cfg \<and> 0 \<le> verify_delay cfg
           \<and> verify_delay cfg \<le> 9223372036
          \<longrightarrow> client_reads vs \<noteq> [] \<and> (out = Returns True \<or> out = Returns False)
            \<and> (out = Returns False
                 \<longrightarrow> length (client_reads vs) = nat (verify_max_attempts cfg)))
      \<and> (client_reads vs \<noteq> [] \<longrightarrow> 1 \<le> verify_max_attempts cfg \<and> 0 \<le> verify_delay cfg
           \<and> verify_delay cfg \<le> 9223372036)"
proof -
  consider (none) "verify_max_attempts cfg \<le> 0"
    | (refused) "1 \<le> verify_max_attempts cfg"
        "verify_delay cfg < 0 \<or> 9223372036 < verify_delay cfg"
    | (runs) "1 \<le> verify_max_attempts cfg" "0 \<le> verify_delay cfg"
        "verify_delay cfg \<le> 9223372036"
    by linarith
  then show ?thesis
  proof cases
    case none
    from sync_port_no_attempts [OF assms(2-10) none] assms(1)
    have "out = Raises UnboundLocalError"
      and "new_calls s s' = [GetForwardedPort g, GetListenPort q, SetListenPort target w] @ []"
      and "health_state s' = set_service_status True True (health_state s)"
      by auto
    with none show ?thesis by (intro exI [of _ "[]"]) simp
  next
    case refused
    from sync_port_sleep_raises [OF assms(2-10) refused] assms(1) obtain e
      where "out = Raises e"
      and "new_calls s s' = [GetForwardedPort g, GetListenPort q, SetListenPort target w] @ []"
      and "health_state s' = set_service_status True True (health_state s)"
      by auto
    with refused show ?thesis by (intro exI [of _ "[]"]) auto
  next
    case runs
    from sync_port_verifies [OF assms(2-10) runs] obtain b vs where
      run: "sync_port cfg env s =
        (Returns b,
         s\<lparr>health_state := set_service_status True True (health_state s),
           calls := calls s
             @ [GetForwardedPort g, GetListenPort q, SetListenPort target w] @ vs\<rparr>)"
      and rest: "write_calls vs = []" "client_reads vs \<noteq> []"
        "length (client_reads vs) \<le> nat (verify_max_attempts cfg)"
        "b \<longleftrightarrow> (\<exists>r\<in>set (client_reads vs). reads_port target r)"
        "\<not> b \<longrightarrow> length (client_reads vs) = nat (verify_max_attempts cfg)"
      by blast
    from run assms(1) have "out = Returns b"
      and "new_calls s s' = [GetForwardedPort g, GetListenPort q, SetListenPort target w] @ vs"
      and "health_state s' = set_service_status True True (health_state s)"
      by auto
    with rest runs show ?thesis by (intro exI [of _ vs]) auto
  qed
qed




subsection \<open>Whether the cycle returns\<close>

text \<open>
  With at least one verification attempt configured and a delay that \<^verbatim>\<open>time.sleep\<close>
  accepts, \<^verbatim>\<open>sync_port\<close> returns a boolean whatever the two services answer.
\<close>

lemma sync_port_returns:
  assumes "1 \<le> verify_max_attempts cfg"
    and "0 \<le> verify_delay cfg" and "verify_delay cfg \<le> 9223372036"
  shows "\<exists>b. fst (sync_port cfg env s) = Returns b"
proof -
  define g where "g = gluetun_get_forwarded_port env (calls s)"
  define q where "q = qbittorrent_get_listen_port env (calls s @ [GetForwardedPort g])"
  consider
      (early) "GluetunResult.is_auth_error g \<or> \<not> GluetunResult.success g
                \<or> GluetunResult.port g = None"
    | (read) p where "\<not> GluetunResult.is_auth_error g" "GluetunResult.success g"
        "GluetunResult.port g = Some p"
        "QBittorrentResult.is_auth_error q \<or> \<not> QBittorrentResult.success q
          \<or> QBittorrentResult.port q = Some p"
    | (update) p where "\<not> GluetunResult.is_auth_error g" "GluetunResult.success g"
        "GluetunResult.port g = Some p"
        "\<not> QBittorrentResult.is_auth_error q" "QBittorrentResult.success q"
        "QBittorrentResult.port q \<noteq> Some p"
    by (cases "GluetunResult.port g") auto
  then show ?thesis
  proof cases
    case early
    then show ?thesis
      by (auto simp: sync_port_def client_calls g_def split: option.splits)
  next
    case read
    then show ?thesis
      by (auto simp: sync_port_def client_calls g_def q_def Let_def)
  next
    case update
    from sync_port_verifies [OF g_def q_def refl update assms] show ?thesis
      by auto
  qed
qed

text \<open>
  C3 (the cycle returns a boolean for every configuration and never raises) fails on
  the code at \<^verbatim>\<open>verify_max_attempts = 0\<close>: when the gateway reports 54321
  and the client reads 12345, the cycle writes the port, runs the loop zero times and
  raises \<^verbatim>\<open>UnboundLocalError\<close> while building the warning after the loop, instead of
  returning a boolean.
\<close>

theorem sync_port_raises_without_attempts:
  "sync_port (config_with 2 0)
     (fixed_services (Gluetun_port 54321) (QBittorrent_port 12345) (QBittorrent_port 54321))
     SyncState_init
   = (Raises UnboundLocalError,
      \<lparr>health_state =
         \<lparr>healthy = True, reason = [], gluetun_ok = True, qbittorrent_ok = True\<rparr>,
       calls = [GetForwardedPort (Gluetun_port 54321), GetListenPort (QBittorrent_port 12345),
                SetListenPort 54321 (QBittorrent_port 54321)]\<rparr>)"
  by (simp add: sync_port_def client_calls fixed_services_def example_results
      SyncState_init_def HealthState_init_def config_with_def set_service_status_def)

subsection \<open>A verification that fails\<close>

text \<open>
  With at least one attempt configured: a cycle that reaches the verification loop and
  spends all its attempts without a read of the target port returns failure, and the
  health state is the one set after the client's first read: healthy, both services
  reachable.
\<close>

lemma sync_port_verification_exhausted:
  assumes "sync_port cfg env s = (out, s')"
    and "g = gluetun_get_forwarded_port env (calls s)"
    and "q = qbittorrent_get_listen_port env (calls s @ [GetForwardedPort g])"
    and "\<not> GluetunResult.is_auth_error g" and "GluetunResult.success g"
    and "GluetunResult.port g = Some target"
    and "\<not> QBittorrentResult.is_auth_error q" and "QBittorrentResult.success q"
    and "QBittorrentResult.port q \<noteq> Some target"
    and "1 \<le> verify_max_attempts cfg"
    and "length (verification_reads (new_calls s s')) = nat (verify_max_attempts cfg)"
    and "\<forall>r\<in>set (verification_reads (new_calls s s')). \<not> reads_port target r"
  shows "out = Returns False
     \<and> health_state s' = set_service_status True True (health_state s)
     \<and> healthy (health_state s')
     \<and> gluetun_ok (health_state s') \<and> qbittorrent_ok (health_state s')"
proof -
  from sync_port_update_path [OF assms(1-3) refl assms(4-9)] obtain vs where
    new: "new_calls s s' = [GetForwardedPort g, GetListenPort q,
                SetListenPort target (qbittorrent_set_listen_port env
                  (calls s @ [GetForwardedPort g, GetListenPort q]) target)] @ vs"
    and h: "health_state s' = set_service_status True True (health_state s)"
    and res: "out = Returns True \<longleftrightarrow> (\<exists>r\<in>set (client_reads vs). reads_port target r)"
    and some: "1 \<le> verify_max_attempts cfg \<and> 0 \<le> verify_delay cfg
           \<and> verify_delay cfg \<le> 9223372036
          \<longrightarrow> client_reads vs \<noteq> [] \<and> (out = Returns True \<or> out = Returns False)
            \<and> (out = Returns False
                 \<longrightarrow> length (client_reads vs) = nat (verify_max_attempts cfg))"
    and only: "client_reads vs \<noteq> [] \<longrightarrow> 1 \<le> verify_max_attempts cfg
           \<and> 0 \<le> verify_delay cfg \<and> verify_delay cfg \<le> 9223372036"
    by blast
  have ver: "verification_reads (new_calls s s') = client_reads vs"
    unfolding new by (rule verification_reads_after_write)
  from assms(10,11) have "client_reads vs \<noteq> []" unfolding ver by auto
  with only some have "out = Returns True \<or> out = Returns False" by blast
  moreover from assms(12) res have "out \<noteq> Returns True" unfolding ver by blast
  ultimately have "out = Returns False" by blast
  with h show ?thesis by simp
qed

text \<open>
  C10 (a cycle that spends all its verification attempts without a match returns
  failure and leaves the health state healthy) fails on the code at
  \<^verbatim>\<open>verify_max_attempts = 0\<close>: the cycle reaches the
  verification loop (one write was made), all zero attempts are spent without a match,
  and the health state is still healthy with both services reachable, but the cycle
  does not return failure: it raises \<^verbatim>\<open>UnboundLocalError\<close>.
\<close>

theorem sync_port_exhausted_without_attempts:
  "write_calls (new_calls SyncState_init
      (snd (sync_port (config_with 2 0)
        (fixed_services (Gluetun_port 54321) (QBittorrent_port 12345) QBittorrent_timed_out)
        SyncState_init))) = [54321]
   \<and> int (length (verification_reads (new_calls SyncState_init
      (snd (sync_port (config_with 2 0)
        (fixed_services (Gluetun_port 54321) (QBittorrent_port 12345) QBittorrent_timed_out)
        SyncState_init))))) = verify_max_attempts (config_with 2 0)
   \<and> healthy (health_state
      (snd (sync_port (config_with 2 0)
        (fixed_services (Gluetun_port 54321) (QBittorrent_port 12345) QBittorrent_timed_out)
        SyncState_init)))
   \<and> fst (sync_port (config_with 2 0)
        (fixed_services (Gluetun_port 54321) (QBittorrent_port 12345) QBittorrent_timed_out)
        SyncState_init) \<noteq> Returns False
   \<and> fst (sync_port (config_with 2 0)
        (fixed_services (Gluetun_port 54321) (QBittorrent_port 12345) QBittorrent_timed_out)
        SyncState_init) = Raises UnboundLocalError"
  by (simp add: sync_port_def client_calls fixed_services_def example_results
      SyncState_init_def config_with_def verification_reads_def new_calls_def)

section \<open>The startup gate\<close>

lemmas wait_loop_unfold =
  check_gluetun_def check_qbittorrent_def gluetun_check_ready_def qbittorrent_check_ready_def
  client_calls time_sleep_def

text \<open>
  Three invariants of the loop, each over the calls made since position \<open>k\<close> of the
  record of calls. First: each service is probed at most once per attempt, and nothing
  is written.
\<close>

lemma wait_loop_counts:
  "wait_loop cfg env as gr qr s = (ex, s') \<Longrightarrow> k \<le> length (calls s) \<Longrightarrow>
   length (gateway_reads (drop k (calls s))) + length as \<le> n \<Longrightarrow>
   length (client_reads (drop k (calls s))) + length as \<le> n \<Longrightarrow>
     k \<le> length (calls s')
   \<and> length (gateway_reads (drop k (calls s'))) \<le> n
   \<and> length (client_reads (drop k (calls s'))) \<le> n
   \<and> write_calls (drop k (calls s')) = write_calls (drop k (calls s))"
proof (induction as arbitrary: gr qr s)
  case Nil
  then show ?case by auto
next
  case (Cons a as)
  show ?case
    using Cons.prems
    by (auto simp: wait_loop_unfold split: if_splits dest!: Cons.IH)
qed

text \<open>
  Second: a side is marked ready only after a probe of it that succeeded and was no
  authentication failure, and the loop returns \<open>True\<close> only with both sides ready.
\<close>

lemma wait_loop_ready:
  "wait_loop cfg env as gr qr s = (LReturn True, s') \<Longrightarrow> k \<le> length (calls s) \<Longrightarrow>
   (gr \<longrightarrow> (\<exists>r\<in>set (gateway_reads (drop k (calls s))).
            GluetunResult.success r \<and> \<not> GluetunResult.is_auth_error r)) \<Longrightarrow>
   (qr \<longrightarrow> (\<exists>r\<in>set (client_reads (drop k (calls s))).
            QBittorrentResult.success r \<and> \<not> QBittorrentResult.is_auth_error r)) \<Longrightarrow>
     (\<exists>r\<in>set (gateway_reads (drop k (calls s'))).
            GluetunResult.success r \<and> \<not> GluetunResult.is_auth_error r)
   \<and> (\<exists>r\<in>set (client_reads (drop k (calls s'))).
            QBittorrentResult.success r \<and> \<not> QBittorrentResult.is_auth_error r)
   \<and> health_state s' = set_service_status True True (health_state s)"
proof (induction as arbitrary: gr qr s)
  case Nil
  then show ?case by auto
next
  case (Cons a as)
  show ?case
    using Cons.prems
    by (auto simp: wait_loop_unfold split: if_splits dest!: Cons.IH)
qed

text \<open>
  Third: the loop stops at the first authentication failure. No call before the last
  one is an authentication failure, and if the last one is, the loop has returned
  \<open>False\<close> and left the health state alone.
\<close>

lemma auth_free_last:
  "\<forall>c\<in>set xs. \<not> is_auth_failure c \<Longrightarrow> xs \<noteq> [] \<Longrightarrow> \<not> is_auth_failure (last xs)"
  by simp

lemma wait_loop_auth:
  "wait_loop cfg env as gr qr s = (ex, s') \<Longrightarrow> k \<le> length (calls s) \<Longrightarrow>
   (\<forall>c\<in>set (drop k (calls s)). \<not> is_auth_failure c) \<Longrightarrow>
     (\<forall>c\<in>set (butlast (drop k (calls s'))). \<not> is_auth_failure c)
   \<and> (drop k (calls s') \<noteq> [] \<and> is_auth_failure (last (drop k (calls s')))
        \<longrightarrow> ex = LReturn False \<and> health_state s' = health_state s)"
proof (induction as arbitrary: gr qr s)
  case Nil
  then show ?case
    using auth_free_last [of "drop k (calls s)"]
    by (auto dest: in_set_butlastD simp del: last_drop)
next
  case (Cons a as)
  show ?case
    using Cons.prems auth_free_last [of "drop k (calls s)"]
    by (auto simp: wait_loop_unfold butlast_append simp del: last_drop split: if_splits
        dest!: Cons.IH dest: in_set_butlastD)
qed

text \<open>
  C7. When \<^verbatim>\<open>wait_for_services\<close> returns success, each of the two services has
  answered at least one probe with a successful result that is no authentication
  failure, and both are marked reachable. Each service is probed at most
  \<^verbatim>\<open>startup_max_attempts\<close> times. As soon as a probe returns an authentication failure
  the gate returns failure: that probe is its last call, whatever is left of the
  attempt budget, and the health state is not touched.
\<close>

theorem wait_for_services_gate:
  assumes "wait_for_services cfg env s = (out, s')"
  shows "(out = Returns True \<longrightarrow>
            (\<exists>r\<in>set (gateway_reads (new_calls s s')).
               GluetunResult.success r \<and> \<not> GluetunResult.is_auth_error r)
          \<and> (\<exists>r\<in>set (client_reads (new_calls s s')).
               QBittorrentResult.success r \<and> \<not> QBittorrentResult.is_auth_error r)
          \<and> health_state s' = set_service_status True True (health_state s))
       \<and> length (gateway_reads (new_calls s s')) \<le> nat (startup_max_attempts cfg)
       \<and> length (client_reads (new_calls s s')) \<le> nat (startup_max_attempts cfg)
       \<and> (\<forall>pre c post. new_calls s s' = pre @ c # post \<and> is_auth_failure c \<longrightarrow>
             post = [] \<and> out = Returns False \<and> health_state s' = health_state s)"
proof -
  let ?k = "length (calls s)"
  let ?as = "[1..startup_max_attempts cfg]"
  obtain ex where loop: "wait_loop cfg env ?as False False s = (ex, s')"
    and out: "out = (case ex of LReturn b \<Rightarrow> Returns b | LRaise e \<Rightarrow> Raises e
                      | LDone u \<Rightarrow> Returns False)"
    using assms
    by (cases "wait_loop cfg env ?as False False s")
       (auto simp: wait_for_services_def split: loop_exit.splits)
  have new: "new_calls s s' = drop ?k (calls s')"
    by (simp add: new_calls_def)
  have ready: "out = Returns True \<longrightarrow>
            (\<exists>r\<in>set (gateway_reads (new_calls s s')).
               GluetunResult.success r \<and> \<not> GluetunResult.is_auth_error r)
          \<and> (\<exists>r\<in>set (client_reads (new_calls s s')).
               QBittorrentResult.success r \<and> \<not> QBittorrentResult.is_auth_error r)
          \<and> health_state s' = set_service_status True True (health_state s)"
  proof
    assume "out = Returns True"
    with out have "ex = LReturn True" by (cases ex) auto
    with loop have "wait_loop cfg env ?as False False s = (LReturn True, s')" by simp
    from wait_loop_ready [OF this, of ?k] show
      "(\<exists>r\<in>set (gateway_reads (new_calls s s')).
               GluetunResult.success r \<and> \<not> GluetunResult.is_auth_error r)
          \<and> (\<exists>r\<in>set (client_reads (new_calls s s')).
               QBittorrentResult.success r \<and> \<not> QBittorrentResult.is_auth_error r)
          \<and> health_state s' = set_service_status True True (health_state s)"
      by (simp add: new)
  qed
  have counts: "length (gateway_reads (new_calls s s')) \<le> nat (startup_max_attempts cfg)
      \<and> length (client_reads (new_calls s s')) \<le> nat (startup_max_attempts cfg)"
    using wait_loop_counts [OF loop, of ?k "nat (startup_max_attempts cfg)"]
    by (simp add: new)
  have "\<forall>c\<in>set (drop ?k (calls s)). \<not> is_auth_failure c" by simp
  from wait_loop_auth [OF loop le_refl this]
  have free: "\<forall>c\<in>set (butlast (new_calls s s')). \<not> is_auth_failure c"
    and last: "new_calls s s' \<noteq> [] \<and> is_auth_failure (last (new_calls s s'))
        \<longrightarrow> ex = LReturn False \<and> health_state s' = health_state s"
    unfolding new by blast+
  have stop: "\<forall>pre c post. new_calls s s' = pre @ c # post \<and> is_auth_failure c \<longrightarrow>
             post = [] \<and> out = Returns False \<and> health_state s' = health_state s"
  proof (intro allI impI)
    fix pre c post
    assume a: "new_calls s s' = pre @ c # post \<and> is_auth_failure c"
    have post: "post = []"
    proof (rule ccontr)
      assume "post \<noteq> []"
      then have "butlast (new_calls s s') = pre @ c # butlast post"
        using a by (simp add: butlast_append)
      then have "c \<in> set (butlast (new_calls s s'))" by simp
      with free a show False by blast
    qed
    with a have "new_calls s s' \<noteq> []" "last (new_calls s s') = c" by simp_all
    with last a have "ex = LReturn False" "health_state s' = health_state s" by simp_all
    with out post show "post = [] \<and> out = Returns False \<and> health_state s' = health_state s"
      by simp
  qed
  from ready counts stop show ?thesis by blast
qed

theorem wait_for_services_gate_witness:
  "fst (wait_for_services (startup_config 3) (late_gateway_services 12345) SyncState_init)
     = Returns True
   \<and> new_calls SyncState_init
       (snd (wait_for_services (startup_config 3) (late_gateway_services 12345)
          SyncState_init))
     = [GetForwardedPort Gluetun_timed_out, GetListenPort (QBittorrent_port 12345), Sleep 5,
        GetForwardedPort Gluetun_no_port]
   \<and> GluetunResult.success Gluetun_no_port
   \<and> \<not> GluetunResult.is_auth_error Gluetun_no_port
   \<and> is_auth_failure (GetListenPort QBittorrent_auth_failed)
   \<and> fst (wait_for_services (startup_config 3)
        (fixed_services Gluetun_timed_out QBittorrent_auth_failed QBittorrent_timed_out)
        SyncState_init) = Returns False
   \<and> new_calls SyncState_init
       (snd (wait_for_services (startup_config 3)
        (fixed_services Gluetun_timed_out QBittorrent_auth_failed QBittorrent_timed_out)
        SyncState_init))
     = [GetForwardedPort Gluetun_timed_out, GetListenPort QBittorrent_auth_failed]"
  using wait_for_services_gate
    [of "startup_config 3" "late_gateway_services 12345" SyncState_init _ _,
     OF prod.collapse [symmetric]]
    wait_for_services_gate
    [of "startup_config 3"
        "fixed_services Gluetun_timed_out QBittorrent_auth_failed QBittorrent_timed_out"
        SyncState_init _ _, OF prod.collapse [symmetric]]
  by (simp add: wait_for_services_def wait_loop_unfold late_gateway_services_def
      fixed_services_def example_results SyncState_init_def startup_config_def
      new_calls_def upto_rec1)

end
